theory Spec2Isabelle
  imports Complex_Main "HOL-Library.Product_Lexorder" "HOL-Library.Multiset"
begin

section \<open>Values of the embedding\<close>

text \<open>
  The program is Python on top of pandas. Its numbers are IEEE doubles; the embedding
  reads them as exact reals, so a comparison or a sum in a theorem is the comparison or
  sum of the ideal values. The one non-number the program tests for, NaN (the
  \<^verbatim>\<open>nav_change\<close> of the first row, a moving average before its window is full), is
  \<open>None\<close> of an option. A NAV is a price and is taken to be non-zero where the program
  divides by it.

  A date is what \<^verbatim>\<open>pd.to_datetime(..., format='%d-%m-%Y')\<close> has parsed: year, month
  and day, ordered lexicographically. A raised Python exception is \<open>Inl\<close> of a sum.
\<close>

datatype py_error = KeyError | IndexError

type_synonym date = "int \<times> nat \<times> nat"

text \<open>\<^verbatim>\<open>df['date'].dt.to_period('M')\<close>: the calendar month of a date.\<close>

definition year_month :: "date \<Rightarrow> int \<times> nat" where
  "year_month d = (fst d, fst (snd d))"

text \<open>
  The day number of a date in the proleptic Gregorian calendar (counted from
  1970-01-01); \<^verbatim>\<open>(b - a).days\<close> of two timestamps is the difference of their day
  numbers.
\<close>

definition days_from_civil :: "date \<Rightarrow> int" where
  "days_from_civil dt =
     (case dt of (y, m, d) \<Rightarrow>
        let y' = (if m \<le> 2 then y - 1 else y);
            era = y' div 400;
            yoe = y' mod 400;
            mp = (if 2 < m then int m - 3 else int m + 9);
            doy = (153 * mp + 2) div 5 + int d - 1;
            doe = yoe * 365 + yoe div 4 - yoe div 100 + doy
        in era * 146097 + doe - 719468)"

definition days_between :: "date \<Rightarrow> date \<Rightarrow> int" where
  "days_between a b = days_from_civil b - days_from_civil a"

text \<open>
  Python's \<^verbatim>\<open>round(x, n)\<close>: to \<open>n\<close> decimals, a tie going to the even neighbour.
\<close>

definition round_half_even :: "real \<Rightarrow> int" where
  "round_half_even y =
     (let f = \<lfloor>y\<rfloor>; d = y - of_int f
      in if d < 1 / 2 then f
         else if 1 / 2 < d then f + 1
         else if even f then f else f + 1)"

definition py_round :: "real \<Rightarrow> nat \<Rightarrow> real" where
  "py_round x n = of_int (round_half_even (x * 10 ^ n)) / 10 ^ n"

text \<open>
  \<^verbatim>\<open>xs.iloc[i]\<close> and Python's \<^verbatim>\<open>xs[i]\<close>: a negative index counts from the end, an
  index out of range raises \<^verbatim>\<open>IndexError\<close>.
\<close>

definition iloc :: "'a list \<Rightarrow> int \<Rightarrow> py_error + 'a" where
  "iloc xs i =
     (if 0 \<le> i \<and> i < int (length xs) then Inr (xs ! nat i)
      else if i < 0 \<and> - int (length xs) \<le> i then Inr (xs ! nat (int (length xs) + i))
      else Inl IndexError)"

section \<open>The contribution multiplier\<close>

text \<open>\<^verbatim>\<open>SIPBacktest.calculate_enhanced_multiplier\<close> (backtest_enhanced_sip.py, 47-73).\<close>

definition calculate_enhanced_multiplier :: "real \<Rightarrow> real \<Rightarrow> real \<Rightarrow> real" where
  "calculate_enhanced_multiplier current_nav previous_nav nav_change =
     (if nav_change \<le> - 3 then 2
      else if nav_change \<le> - 2 then 15 / 10
      else if nav_change \<le> - 1 then 125 / 100
      else if current_nav < previous_nav * (98 / 100) then 115 / 100
      else if previous_nav * (102 / 100) < current_nav then 85 / 100
      else 1)"

text \<open>
  The ladder in the specification's words: a table of rows (condition, multiplier),
  read top to bottom, the first row whose condition holds giving the value.
\<close>

fun first_match :: "(bool \<times> real) list \<Rightarrow> real \<Rightarrow> real" where
  "first_match [] other = other"
| "first_match ((c, v) # rows) other = (if c then v else first_match rows other)"

definition spec_ladder :: "real \<Rightarrow> real \<Rightarrow> real \<Rightarrow> (bool \<times> real) list" where
  "spec_ladder price previousPrice percentChange =
     [(percentChange \<le> - 3, 2),
      (percentChange \<le> - 2, 15 / 10),
      (percentChange \<le> - 1, 125 / 100),
      (price < 98 / 100 * previousPrice, 115 / 100),
      (price > 102 / 100 * previousPrice, 85 / 100)]"

section \<open>Preparing the series\<close>

text \<open>
  A record of the price history as the data source returns it, after
  \<^verbatim>\<open>pd.to_datetime\<close> and \<^verbatim>\<open>pd.to_numeric\<close> have read its two strings (both raise
  on text they cannot read, before any series exists). The rows of the two data frames
  extend it by their derived columns.
\<close>

record nav_point =
  date :: date
  nav :: real

record nav_row = nav_point +
  nav_change :: "real option"
  nav_ma_30 :: "real option"

record trend_row = nav_row +
  nav_ma_7 :: "real option"
  volatility :: "real option"
  is_significant_drop :: bool
  is_below_ma :: bool

text \<open>
  \<^verbatim>\<open>Series.pct_change()\<close>: NaN for the first entry, then \<open>x\<^sub>i / x\<^sub>i\<^sub>-\<^sub>1 - 1\<close>.
\<close>

definition pct_change :: "real list \<Rightarrow> real option list" where
  "pct_change xs =
     (case xs of [] \<Rightarrow> []
      | _ # ys \<Rightarrow> None # map (\<lambda>(p, c). Some (c / p - 1)) (zip xs ys))"

text \<open>
  \<^verbatim>\<open>Series.rolling(window=w)\<close>: at every index the last \<open>w\<close> entries up to it, and
  nothing (NaN after aggregation) while fewer than \<open>w\<close> entries exist.
\<close>

definition rolling :: "nat \<Rightarrow> real list \<Rightarrow> real list option list" where
  "rolling w xs =
     map (\<lambda>i. if w \<le> i + 1 then Some (take w (drop (i + 1 - w) xs)) else None)
       [0..<length xs]"

definition mean :: "real list \<Rightarrow> real" where
  "mean xs = sum_list xs / real (length xs)"

text \<open>\<^verbatim>\<open>.std()\<close>: the sample standard deviation (one degree of freedom removed).\<close>

definition std :: "real list \<Rightarrow> real" where
  "std xs = sqrt (sum_list (map (\<lambda>x. (x - mean xs)\<^sup>2) xs) / real (length xs - 1))"

text \<open>A comparison with NaN on either side is false.\<close>

definition lt_nan :: "real option \<Rightarrow> real option \<Rightarrow> bool" where
  "lt_nan a b = (case (a, b) of (Some x, Some y) \<Rightarrow> x < y | _ \<Rightarrow> False)"

definition le_nan :: "real option \<Rightarrow> real option \<Rightarrow> bool" where
  "le_nan a b = (case (a, b) of (Some x, Some y) \<Rightarrow> x \<le> y | _ \<Rightarrow> False)"

text \<open>
  \<^verbatim>\<open>SIPBacktest.get_historical_data\<close> (backtest_enhanced_sip.py, 20-45), from the
  fetched history on. \<^verbatim>\<open>sort_values('date')\<close> is a sort by the date column; pandas
  does not fix the order in which its default sort leaves rows of equal dates, and
  nothing below depends on it.
\<close>

definition get_historical_data :: "nav_point list \<Rightarrow> nav_row list" where
  "get_historical_data history =
     (if history = [] then []
      else
        let df = sort_key date history;
            navs = map nav df;
            chg = map (map_option (\<lambda>v. v * 100)) (pct_change navs);
            ma_30 = map (map_option mean) (rolling 30 navs)
        in map (\<lambda>i. \<lparr>date = date (df ! i), nav = navs ! i,
                       nav_change = chg ! i, nav_ma_30 = ma_30 ! i\<rparr>)
             [0..<length df])"

text \<open>\<^verbatim>\<open>EnhancedSIP.analyze_nav_trends\<close> (enhanced_sip.py, 17-49), likewise.\<close>

definition analyze_nav_trends :: "nav_point list \<Rightarrow> trend_row list" where
  "analyze_nav_trends history =
     (if history = [] then []
      else
        let df = sort_key date history;
            navs = map nav df;
            chg = map (map_option (\<lambda>v. v * 100)) (pct_change navs);
            ma_7 = map (map_option mean) (rolling 7 navs);
            ma_30 = map (map_option mean) (rolling 30 navs);
            vol = map (map_option std) (rolling 7 navs)
        in map (\<lambda>i. \<lparr>date = date (df ! i), nav = navs ! i,
                       nav_change = chg ! i, nav_ma_30 = ma_30 ! i,
                       nav_ma_7 = ma_7 ! i, volatility = vol ! i,
                       is_significant_drop = lt_nan (chg ! i) (Some (- 1)),
                       is_below_ma = lt_nan (Some (navs ! i)) (ma_30 ! i)\<rparr>)
             [0..<length df])"

section \<open>The periodic investment simulator\<close>

record investment =
  inv_date :: date
  inv_nav :: real
  inv_nav_change :: "real option"
  amount :: real
  units :: real
  inv_total_units :: real
  inv_total_invested :: real

text \<open>
  The dictionary \<^verbatim>\<open>simulate_sip\<close> returns. Its \<open>cagr\<close> is \<open>None\<close> when the
  double the program computes is not a finite number (NaN or an infinity).
\<close>

record sim_result =
  strategy :: string
  total_invested :: real
  total_units :: real
  final_nav :: real
  final_value :: real
  absolute_return :: real
  return_percent :: real
  cagr :: "real option"
  num_investments :: nat
  investments :: "investment list"

text \<open>
  \<^verbatim>\<open>df.groupby(key)\<close>: one group per key that occurs, the keys in ascending order,
  every group holding its rows in the order of the frame.
\<close>

definition groupby :: "('a \<Rightarrow> 'k::linorder) \<Rightarrow> 'a list \<Rightarrow> ('k \<times> 'a list) list" where
  "groupby key df =
     map (\<lambda>k. (k, filter (\<lambda>r. key r = k) df)) (sort (remdups (map key df)))"

text \<open>Lines 109-123 of \<^verbatim>\<open>simulate_sip\<close>: the amount invested at a row.\<close>

definition investment_amount :: "real \<Rightarrow> string \<Rightarrow> nav_row \<Rightarrow> real" where
  "investment_amount base_amount strat invest_row =
     (if strat = ''enhanced'' then
        (let multiplier =
           (case nav_change invest_row of
              Some chg \<Rightarrow>
                (let prev_nav = nav invest_row / (1 + chg / 100)
                 in calculate_enhanced_multiplier (nav invest_row) prev_nav chg)
            | None \<Rightarrow> 1)
         in base_amount * multiplier)
      else base_amount)"

text \<open>
  One turn of the loop over the months (lines 99-139). The state is
  \<^verbatim>\<open>(total_invested, total_units, investments)\<close>.
\<close>

definition sip_step ::
  "real \<Rightarrow> string \<Rightarrow> real \<times> real \<times> investment list \<Rightarrow> (int \<times> nat) \<times> nav_row list
     \<Rightarrow> real \<times> real \<times> investment list" where
  "sip_step base_amount strat st pg =
     (case st of (t_invested, t_units, invs) \<Rightarrow>
        let month_data = sort_key date (snd pg)
        in if length month_data = 0 then st
           else
             let invest_row = hd month_data;
                 amt = investment_amount base_amount strat invest_row;
                 u = amt / nav invest_row;
                 t_invested' = t_invested + amt;
                 t_units' = t_units + u
             in (t_invested', t_units',
                 invs @ [\<lparr>inv_date = date invest_row, inv_nav = nav invest_row,
                           inv_nav_change = nav_change invest_row,
                           amount = amt, units = u,
                           inv_total_units = t_units',
                           inv_total_invested = t_invested'\<rparr>]))"

text \<open>
  \<^verbatim>\<open>SIPBacktest.simulate_sip\<close> (backtest_enhanced_sip.py, 75-162). The parameter
  \<^verbatim>\<open>investment_day\<close> is never read and is left out. The frame without rows that the
  program builds is \<^verbatim>\<open>pd.DataFrame()\<close>, which has no column \<^verbatim>\<open>date\<close>: line 92
  raises \<^verbatim>\<open>KeyError\<close> on it.

  Line 149 divides by \<^verbatim>\<open>total_invested\<close> under the test \<^verbatim>\<open>years > 0\<close> alone. The
  quotient of doubles by zero is NaN or an infinity, and the power of a negative double
  to an exponent that is not a whole number is NaN: both are \<open>None\<close>.
\<close>

definition simulate_sip :: "nav_row list \<Rightarrow> real \<Rightarrow> string \<Rightarrow> py_error + sim_result" where
  "simulate_sip df base_amount strat =
     (if df = [] then Inl KeyError
      else
        (case foldl (sip_step base_amount strat) (0, 0, [])
                (groupby (\<lambda>r. year_month (date r)) df) of
           (t_invested, t_units, invs) \<Rightarrow>
             let f_nav = nav (last df);
                 f_value = t_units * f_nav;
                 abs_return = f_value - t_invested;
                 ret_percent =
                   (if 0 < t_invested then abs_return / t_invested * 100 else 0);
                 years = real_of_int (days_between (date (hd df)) (date (last df)))
                           / (36525 / 100);
                 growth =
                   (if 0 < years then
                      (if t_invested = 0 \<or> f_value / t_invested < 0 then None
                       else Some (((f_value / t_invested) powr (1 / years) - 1) * 100))
                    else Some 0)
             in Inr \<lparr>strategy = strat,
                      total_invested = py_round t_invested 2,
                      total_units = py_round t_units 3,
                      final_nav = py_round f_nav 2,
                      final_value = py_round f_value 2,
                      absolute_return = py_round abs_return 2,
                      return_percent = py_round ret_percent 2,
                      cagr = map_option (\<lambda>v. py_round v 2) growth,
                      num_investments = length invs,
                      investments = invs\<rparr>))"

text \<open>
  Two notions for reasoning about the loop: the row the loop invests at in every group,
  and what it means for a state of the loop to carry the running totals of its ledger.
\<close>

definition representatives :: "('k \<times> nav_row list) list \<Rightarrow> nav_row list" where
  "representatives gs = map (\<lambda>kg. hd (sort_key date (snd kg))) gs"

definition running_totals :: "real \<times> real \<times> investment list \<Rightarrow> bool" where
  "running_totals st =
     (case st of (t_invested, t_units, invs) \<Rightarrow>
        t_invested = sum_list (map amount invs) \<and> t_units = sum_list (map units invs)
        \<and> list_all
             (\<lambda>i. inv_total_invested (invs ! i) = sum_list (map amount (take (Suc i) invs))
                \<and> inv_total_units (invs ! i) = sum_list (map units (take (Suc i) invs)))
             [0..<length invs])"

section \<open>Rolling returns\<close>

record rolling_return =
  rr_date :: date
  rr_invested :: real
  rr_value :: real
  rr_return_percent :: real

text \<open>The first exception of a run of computations, or all their results.\<close>

fun collect :: "('e + 'a) list \<Rightarrow> 'e + 'a list" where
  "collect [] = Inr []"
| "collect (Inl e # rs) = Inl e"
| "collect (Inr x # rs) = (case collect rs of Inl e \<Rightarrow> Inl e | Inr xs \<Rightarrow> Inr (x # xs))"

text \<open>The body of the loop of \<^verbatim>\<open>calculate_rolling_returns\<close> at index \<open>i\<close>.\<close>

definition rolling_point :: "investment list \<Rightarrow> nat \<Rightarrow> nat \<Rightarrow> py_error + rolling_return" where
  "rolling_point inv_df window_months i =
     (let window_start = i - window_months;
          window_end = i;
          win = take (window_end - window_start) (drop window_start inv_df);
          invested = sum_list (map amount win);
          u = sum_list (map units win)
      in case iloc inv_df (int window_end - 1) of
           Inl e \<Rightarrow> Inl e
         | Inr row \<Rightarrow>
             let current_nav = inv_nav row;
                 current_value = u * current_nav;
                 returns =
                   (if 0 < invested then (current_value - invested) / invested * 100 else 0)
             in Inr \<lparr>rr_date = inv_date row, rr_invested = invested,
                      rr_value = current_value, rr_return_percent = returns\<rparr>)"

text \<open>
  \<^verbatim>\<open>SIPBacktest.calculate_rolling_returns\<close> (backtest_enhanced_sip.py, 164-201), for a
  window of \<open>window_months\<close> \<open>\<ge> 0\<close> months; the frame \<^verbatim>\<open>df\<close> it is passed is never
  read. \<^verbatim>\<open>pd.DataFrame([])\<close> has no column \<^verbatim>\<open>date\<close>, so line 179 raises
  \<^verbatim>\<open>KeyError\<close> on an empty ledger.
\<close>

definition calculate_rolling_returns ::
  "investment list \<Rightarrow> nat \<Rightarrow> py_error + rolling_return list" where
  "calculate_rolling_returns invs window_months =
     (if invs = [] then Inl KeyError
      else collect (map (rolling_point invs window_months) [window_months..<length invs]))"

section \<open>Comparing the two strategies\<close>

record comparison =
  regular :: sim_result
  enhanced :: sim_result
  regular_rolling :: "rolling_return list"
  enhanced_rolling :: "rolling_return list"
  outperformance :: real
  outperformance_pct :: real

text \<open>
  \<^verbatim>\<open>SIPBacktest.compare_strategies\<close> (backtest_enhanced_sip.py, 203-283), from the
  fetched history on, without its printing. The empty dictionary of line 226 is
  \<open>Inr None\<close>: a value the function returns, not an exception.
\<close>

definition compare_strategies :: "nav_point list \<Rightarrow> real \<Rightarrow> py_error + comparison option" where
  "compare_strategies history base_amount =
     (let df = get_historical_data history
      in if df = [] then Inr None
         else
           (case simulate_sip df base_amount ''regular'' of
              Inl e \<Rightarrow> Inl e
            | Inr regular_results \<Rightarrow>
           (case simulate_sip df base_amount ''enhanced'' of
              Inl e \<Rightarrow> Inl e
            | Inr enhanced_results \<Rightarrow>
           (case calculate_rolling_returns (investments regular_results) 12 of
              Inl e \<Rightarrow> Inl e
            | Inr reg_rolling \<Rightarrow>
           (case calculate_rolling_returns (investments enhanced_results) 12 of
              Inl e \<Rightarrow> Inl e
            | Inr enh_rolling \<Rightarrow>
                (let extra_return =
                       absolute_return enhanced_results - absolute_return regular_results;
                     extra_return_pct =
                       return_percent enhanced_results - return_percent regular_results
                 in Inr (Some \<lparr>regular = regular_results, enhanced = enhanced_results,
                                regular_rolling = reg_rolling,
                                enhanced_rolling = enh_rolling,
                                outperformance = extra_return,
                                outperformance_pct = extra_return_pct\<rparr>)))))))"

section \<open>Opportunities\<close>

text \<open>
  An entry of the list \<^verbatim>\<open>find_best_investment_dates\<close> returns. The program writes the
  date as text (\<^verbatim>\<open>strftime('%d-%m-%Y')\<close>); the entry keeps the date itself.
\<close>

record opportunity =
  opp_date :: date
  opp_nav :: real
  nav_change_percent :: real
  nav_30day_avg :: "real option"
  opportunity_score :: real
  recommendation :: string

text \<open>\<^verbatim>\<open>EnhancedSIP._get_recommendation\<close> (enhanced_sip.py, 94-103).\<close>

definition get_recommendation :: "real \<Rightarrow> string" where
  "get_recommendation score =
     (if 3 \<le> score then ''Excellent - Invest 150-200% of regular SIP''
      else if 2 \<le> score then ''Very Good - Invest 125-150% of regular SIP''
      else if 15 / 10 \<le> score then ''Good - Invest 110-125% of regular SIP''
      else ''Moderate - Invest regular SIP amount'')"

text \<open>
  Line 71, \<^verbatim>\<open>df[df['nav_change'] <= drop_threshold]\<close>: the rows whose change is a
  number at or below the threshold, each with that number.
\<close>

definition drops_at_or_below :: "real \<Rightarrow> trend_row list \<Rightarrow> (trend_row \<times> real) list" where
  "drops_at_or_below drop_threshold df =
     List.map_filter
       (\<lambda>r. case nav_change r of
              Some chg \<Rightarrow> if chg \<le> drop_threshold then Some (r, chg) else None
            | None \<Rightarrow> None) df"

text \<open>Lines 83-90: the dictionary written for a row, its change and its score.\<close>

definition opportunity_entry :: "trend_row \<times> real \<times> real \<Rightarrow> opportunity" where
  "opportunity_entry t =
     (case t of (row, chg, score) \<Rightarrow>
        \<lparr>opp_date = date row,
         opp_nav = py_round (nav row) 2,
         nav_change_percent = py_round chg 2,
         nav_30day_avg = map_option (\<lambda>m. py_round m 2) (nav_ma_30 row),
         opportunity_score = py_round score 2,
         recommendation = get_recommendation score\<rparr>)"

text \<open>
  \<^verbatim>\<open>EnhancedSIP.find_best_investment_dates\<close> (enhanced_sip.py, 51-92), from the fetched
  history on. \<^verbatim>\<open>sort_values('opportunity_score', ascending=False)\<close> is a sort by
  falling score, the score being the unrounded size of the change; as for the dates,
  pandas does not fix the order in which its default sort leaves rows of equal score,
  and no theorem below depends on it.
\<close>

definition find_best_investment_dates :: "nav_point list \<Rightarrow> real \<Rightarrow> opportunity list" where
  "find_best_investment_dates history drop_threshold =
     (let df = analyze_nav_trends history
      in if df = [] then []
         else
           let opportunities = drops_at_or_below drop_threshold df;
               scored = map (\<lambda>(row, chg). (row, chg, \<bar>chg\<bar>)) opportunities;
               ranked = sort_key (\<lambda>(row, chg, score). - score) scored
           in map opportunity_entry ranked)"

text \<open>
  The order of the opportunities in the specification's words: falling score, and
  rising date among equal scores.
\<close>

definition spec_opportunity_order :: "opportunity list \<Rightarrow> bool" where
  "spec_opportunity_order os =
     sorted_wrt
       (\<lambda>a b. opportunity_score b < opportunity_score a
              \<or> (opportunity_score a = opportunity_score b \<and> opp_date a \<le> opp_date b)) os"

section \<open>The strategy of the current month\<close>

record monthly_strategy =
  current_nav :: real
  previous_nav :: real
  average_nav_30d :: real
  recent_change_percent :: "real option"
  base_sip_amount :: real
  recommended_amount :: real
  multiplier :: real
  units_to_buy :: real
  strategy_message :: string

text \<open>\<^verbatim>\<open>EnhancedSIP._get_strategy_message\<close> (enhanced_sip.py, 154-163).\<close>

definition get_strategy_message :: "real \<Rightarrow> string" where
  "get_strategy_message m =
     (if 15 / 10 \<le> m then ''Market is down significantly - Great buying opportunity!''
      else if 125 / 100 \<le> m then ''Market correction - Good time to invest more''
      else if m \<le> 85 / 100 then ''Market is high - Reduce investment amount''
      else ''Market is stable - Continue regular SIP'')"

text \<open>
  \<^verbatim>\<open>EnhancedSIP.get_monthly_investment_strategy\<close> (enhanced_sip.py, 105-152), from the
  fetched history on (the thirty most recent records). The scheme code, which the
  result only repeats, is left out. The empty dictionary of line 120 is \<open>Inr None\<close>.
\<close>

definition get_monthly_investment_strategy ::
  "nav_point list \<Rightarrow> real \<Rightarrow> py_error + monthly_strategy option" where
  "get_monthly_investment_strategy history base_amount =
     (let df = analyze_nav_trends history
      in if df = [] then Inr None
         else
           (case iloc df (- 1) of
              Inl e \<Rightarrow> Inl e
            | Inr latest \<Rightarrow>
           (case iloc df (- 2) of
              Inl e \<Rightarrow> Inl e
            | Inr previous \<Rightarrow>
                (let avg_nav = mean (map nav df);
                     cur_nav = nav latest;
                     prev_nav = nav previous;
                     recent_drop = nav_change latest;
                     mult =
                       (if cur_nav < prev_nav * (95 / 100) then 15 / 10
                        else if cur_nav < prev_nav * (98 / 100) then 125 / 100
                        else if prev_nav * (102 / 100) < cur_nav then 85 / 100
                        else 1);
                     rec_amount = base_amount * mult
                 in Inr (Some \<lparr>current_nav = py_round cur_nav 2,
                                previous_nav = py_round prev_nav 2,
                                average_nav_30d = py_round avg_nav 2,
                                recent_change_percent =
                                  map_option (\<lambda>v. py_round v 2) recent_drop,
                                base_sip_amount = base_amount,
                                recommended_amount = py_round rec_amount 2,
                                multiplier = py_round mult 2,
                                units_to_buy = py_round (rec_amount / cur_nav) 3,
                                strategy_message = get_strategy_message mult\<rparr>)))))"

section \<open>Series used as examples\<close>

text \<open>The series of the specification's scenarios: 100, 97 and 103 on the first of
  January, February and March.\<close>

definition scenario_history :: "nav_point list" where
  "scenario_history =
     [\<lparr>date = (2024, 1, 1), nav = 100\<rparr>,
      \<lparr>date = (2024, 2, 1), nav = 97\<rparr>,
      \<lparr>date = (2024, 3, 1), nav = 103\<rparr>]"

text \<open>Two points in January, given out of order, none in February, one in March.\<close>

definition gap_history :: "nav_point list" where
  "gap_history =
     [\<lparr>date = (2024, 1, 15), nav = 100\<rparr>,
      \<lparr>date = (2024, 1, 3), nav = 102\<rparr>,
      \<lparr>date = (2024, 3, 10), nav = 105\<rparr>]"

text \<open>The same day reported twice.\<close>

definition repeated_day_history :: "nav_point list" where
  "repeated_day_history =
     [\<lparr>date = (2024, 1, 1), nav = 100\<rparr>, \<lparr>date = (2024, 1, 1), nav = 101\<rparr>]"

definition two_month_history :: "nav_point list" where
  "two_month_history =
     [\<lparr>date = (2024, 1, 1), nav = 100\<rparr>, \<lparr>date = (2024, 2, 1), nav = 110\<rparr>]"

text \<open>A ledger of fifteen equal contributions.\<close>

definition level_ledger :: "investment list" where
  "level_ledger =
     replicate 15 \<lparr>inv_date = (2024, 1, 1), inv_nav = 100, inv_nav_change = None,
                    amount = 1000, units = 10,
                    inv_total_units = 10, inv_total_invested = 1000\<rparr>"

text \<open>
  The ledger of a base amount of -1000 at the prices 100, 50 and 50: every amount and
  every number of units is negative.
\<close>

definition negative_ledger :: "investment list" where
  "negative_ledger =
     [\<lparr>inv_date = (2024, 1, 1), inv_nav = 100, inv_nav_change = None,
        amount = - 1000, units = - 10,
        inv_total_units = - 10, inv_total_invested = - 1000\<rparr>,
      \<lparr>inv_date = (2024, 2, 1), inv_nav = 50, inv_nav_change = Some (- 50),
        amount = - 1000, units = - 20,
        inv_total_units = - 30, inv_total_invested = - 2000\<rparr>,
      \<lparr>inv_date = (2024, 3, 1), inv_nav = 50, inv_nav_change = Some 0,
        amount = - 1000, units = - 20,
        inv_total_units = - 50, inv_total_invested = - 3000\<rparr>]"

text \<open>
  Three days with two drops of nearly the same size: 2.001 percent on the second day
  and a little more than 2.004 percent on the third.
\<close>

definition near_tie_history :: "nav_point list" where
  "near_tie_history =
     [\<lparr>date = (2024, 1, 1), nav = 100000\<rparr>,
      \<lparr>date = (2024, 1, 2), nav = 97999\<rparr>,
      \<lparr>date = (2024, 1, 3), nav = 96035\<rparr>]"

section \<open>The multiplier ladder\<close>

text \<open>
  Claim C1. For every percent change and every pair of current and previous prices the
  multiplier is the value of the first matching row of the ladder (2.0, 1.5, 1.25,
  1.15, 0.85, and 1.0 when no row matches); a percent change of -3.5 gives 2.0
  whatever the two prices are.
\<close>

theorem C1_multiplier_ladder:
  "calculate_enhanced_multiplier price previousPrice percentChange
     = first_match (spec_ladder price previousPrice percentChange) 1
   \<and> calculate_enhanced_multiplier price previousPrice (- 35 / 10) = 2"
  by (simp add: calculate_enhanced_multiplier_def spec_ladder_def mult.commute)

section \<open>Order of the prepared series\<close>

lemma length_pct_change: "length (pct_change xs) = length xs"
  by (cases xs) (simp_all add: pct_change_def)

lemma length_rolling: "length (rolling w xs) = length xs"
  by (simp add: rolling_def)

lemma map_nth_upt: "map (\<lambda>i. f (xs ! i)) [0..<length xs] = map f xs"
  by (rule nth_equalityI) simp_all

lemma dates_get_historical_data:
  "map date (get_historical_data history) = map date (sort_key date history)"
proof (cases "history = []")
  case True
  then show ?thesis by (simp add: get_historical_data_def)
next
  case False
  then show ?thesis
    using map_nth_upt [of date "sort_key date history"]
    by (simp add: get_historical_data_def Let_def o_def)
qed

lemma dates_analyze_nav_trends:
  "map date (analyze_nav_trends history) = map date (sort_key date history)"
proof (cases "history = []")
  case True
  then show ?thesis by (simp add: analyze_nav_trends_def)
next
  case False
  then show ?thesis
    using map_nth_upt [of date "sort_key date history"]
    by (simp add: analyze_nav_trends_def Let_def o_def)
qed

text \<open>
  Claim C4, as the program has it. Neither \<^verbatim>\<open>get_historical_data\<close> nor
  \<^verbatim>\<open>analyze_nav_trends\<close> drops a record: the prepared series carries the dates of the
  raw records, every one as often as it was reported, in ascending order. It is strictly
  ascending, without a repeated date, exactly when the raw records have pairwise
  different dates.
\<close>

theorem C4_prepared_series_ascending:
  "sorted (map date (get_historical_data history))
   \<and> mset (map date (get_historical_data history)) = mset (map date history)
   \<and> (sorted_wrt (<) (map date (get_historical_data history))
        \<longleftrightarrow> distinct (map date history))
   \<and> sorted (map date (analyze_nav_trends history))
   \<and> mset (map date (analyze_nav_trends history)) = mset (map date history)
   \<and> (sorted_wrt (<) (map date (analyze_nav_trends history))
        \<longleftrightarrow> distinct (map date history))"
proof -
  let ?ds = "map date (sort_key date history)"
  have s: "sorted ?ds" by simp
  have m: "mset ?ds = mset (map date history)" by simp
  have "distinct ?ds \<longleftrightarrow> distinct (map date history)"
    using m by (metis distinct_count_atmost_1 set_mset_mset)
  with s have "sorted_wrt (<) ?ds \<longleftrightarrow> distinct (map date history)"
    by (simp add: strict_sorted_iff)
  with s m show ?thesis
    by (simp add: dates_get_historical_data dates_analyze_nav_trends)
qed

text \<open>The gap series has three different dates: sorted, it is strictly ascending.\<close>

theorem C4_prepared_series_ascending_witness:
  "map date (get_historical_data gap_history) = [(2024, 1, 3), (2024, 1, 15), (2024, 3, 10)]
   \<and> sorted_wrt (<) (map date (get_historical_data gap_history))
   \<and> sorted_wrt (<) (map date (analyze_nav_trends gap_history))"
  using C4_prepared_series_ascending [of gap_history]
  by (simp add: gap_history_def dates_get_historical_data)

text \<open>
  Claim C4 as stated fails: a day reported twice stays twice in the prepared series,
  which is then neither strictly ascending nor free of repeated dates.
\<close>

theorem C4_repeated_day_counterexample:
  "map date (get_historical_data repeated_day_history) = [(2024, 1, 1), (2024, 1, 1)]
   \<and> \<not> sorted_wrt (<) (map date (get_historical_data repeated_day_history))
   \<and> \<not> distinct (map date (get_historical_data repeated_day_history))
   \<and> \<not> sorted_wrt (<) (map date (analyze_nav_trends repeated_day_history))
   \<and> \<not> distinct (map date (analyze_nav_trends repeated_day_history))"
  by (simp add: repeated_day_history_def dates_get_historical_data dates_analyze_nav_trends)

section \<open>The loop of the simulator\<close>

lemma sort_key_Nil_iff: "sort_key f xs = [] \<longleftrightarrow> xs = []"
  by (metis length_0_conv length_sort)

lemma hd_sort_key_in: "xs \<noteq> [] \<Longrightarrow> hd (sort_key f xs) \<in> set xs"
  by (metis hd_in_set set_sort sort_key_Nil_iff)

lemma hd_sort_key_least:
  assumes "x \<in> set xs"
  shows "f (hd (sort_key f xs)) \<le> f x"
proof -
  have ne: "sort_key f xs \<noteq> []"
    using assms by (auto simp: sort_key_Nil_iff)
  have "sorted (map f (sort_key f xs))"
    by (rule sorted_sort_key)
  moreover have "f x \<in> set (map f (sort_key f xs))"
    using assms by simp
  moreover have "map f (sort_key f xs) = f (hd (sort_key f xs)) # map f (tl (sort_key f xs))"
    using ne by (cases "sort_key f xs") simp_all
  ultimately show ?thesis
    by (metis order_refl set_ConsD sorted_simps(2))
qed

lemma groupby_member:
  "(k, g) \<in> set (groupby key df) \<Longrightarrow>
     g \<noteq> [] \<and> g = filter (\<lambda>r. key r = k) df \<and> k \<in> key ` set df"
  by (auto simp: groupby_def filter_empty_conv)

lemma groupby_keys: "map fst (groupby key df) = sort (remdups (map key df))"
  by (simp add: groupby_def o_def)

lemma groupby_groups_nonempty: "\<forall>kg \<in> set (groupby key df). snd kg \<noteq> []"
  using groupby_member by fastforce

lemma sip_step_group:
  "g \<noteq> [] \<Longrightarrow>
   sip_step b s (ti, tu, invs) (k, g) =
     (let r = hd (sort_key date g); a = investment_amount b s r
      in (ti + a, tu + a / nav r,
          invs @ [\<lparr>inv_date = date r, inv_nav = nav r, inv_nav_change = nav_change r,
                    amount = a, units = a / nav r,
                    inv_total_units = tu + a / nav r, inv_total_invested = ti + a\<rparr>]))"
  by (simp add: sip_step_def Let_def sort_key_Nil_iff)

lemma foldl_sip_step_columns:
  assumes "\<forall>kg \<in> set gs. snd kg \<noteq> []"
  shows "map inv_date (snd (snd (foldl (sip_step b s) (ti, tu, invs) gs)))
           = map inv_date invs @ map date (representatives gs)
       \<and> map inv_nav (snd (snd (foldl (sip_step b s) (ti, tu, invs) gs)))
           = map inv_nav invs @ map nav (representatives gs)
       \<and> map inv_nav_change (snd (snd (foldl (sip_step b s) (ti, tu, invs) gs)))
           = map inv_nav_change invs @ map nav_change (representatives gs)
       \<and> map amount (snd (snd (foldl (sip_step b s) (ti, tu, invs) gs)))
           = map amount invs @ map (investment_amount b s) (representatives gs)
       \<and> map units (snd (snd (foldl (sip_step b s) (ti, tu, invs) gs)))
           = map units invs
             @ map (\<lambda>r. investment_amount b s r / nav r) (representatives gs)"
  using assms
proof (induction gs arbitrary: ti tu invs)
  case Nil
  then show ?case by (simp add: representatives_def)
next
  case (Cons kg gs)
  obtain k g where kg: "kg = (k, g)" by (cases kg)
  with Cons.prems have g: "g \<noteq> []" by simp
  from Cons.prems have rest: "\<forall>kg \<in> set gs. snd kg \<noteq> []" by simp
  show ?case
    by (simp add: kg sip_step_group [OF g] Let_def Cons.IH [OF rest])
       (simp add: representatives_def)
qed

lemma running_totals_step:
  assumes "running_totals st"
  shows "running_totals (sip_step b s st kg)"
proof -
  obtain ti tu invs where st: "st = (ti, tu, invs)" by (cases st)
  obtain k g where kg: "kg = (k, g)" by (cases kg)
  show ?thesis
  proof (cases "g = []")
    case True
    then show ?thesis using assms by (simp add: st kg sip_step_def)
  next
    case False
    show ?thesis using assms
      by (auto simp: st kg sip_step_group [OF False] Let_def running_totals_def nth_append
            list_all_iff)
  qed
qed

lemma running_totals_foldl:
  "running_totals st \<Longrightarrow> running_totals (foldl (sip_step b s) st gs)"
  by (induction gs arbitrary: st) (simp_all add: running_totals_step)

lemma running_totals_start: "running_totals (0, 0, [])"
  by (simp add: running_totals_def)

lemma simulate_sip_result:
  assumes "df \<noteq> []"
    and "foldl (sip_step b s) (0, 0, []) (groupby (\<lambda>r. year_month (date r)) df) = (ti, tu, invs)"
  shows "\<exists>res. simulate_sip df b s = Inr res
     \<and> investments res = invs \<and> num_investments res = length invs
     \<and> total_invested res = py_round ti 2 \<and> total_units res = py_round tu 3
     \<and> final_nav res = py_round (nav (last df)) 2
     \<and> final_value res = py_round (tu * nav (last df)) 2
     \<and> absolute_return res = py_round (tu * nav (last df) - ti) 2
     \<and> return_percent res
           = py_round (if 0 < ti then (tu * nav (last df) - ti) / ti * 100 else 0) 2
     \<and> cagr res = map_option (\<lambda>v. py_round v 2)
           (if 0 < real_of_int (days_between (date (hd df)) (date (last df))) / (36525 / 100)
            then (if ti = 0 \<or> tu * nav (last df) / ti < 0 then None
                  else Some (((tu * nav (last df) / ti)
                       powr (1 / (real_of_int (days_between (date (hd df)) (date (last df))) / (36525 / 100))) - 1) * 100))
            else Some 0)"
  using assms by (simp add: simulate_sip_def Let_def)

lemma ledger_of_simulation:
  assumes "df \<noteq> []"
  shows "\<exists>res. simulate_sip df b s = Inr res
     \<and> map inv_date (investments res)
           = map date (representatives (groupby (\<lambda>r. year_month (date r)) df))
     \<and> map inv_nav (investments res)
           = map nav (representatives (groupby (\<lambda>r. year_month (date r)) df))
     \<and> map inv_nav_change (investments res)
           = map nav_change (representatives (groupby (\<lambda>r. year_month (date r)) df))
     \<and> map amount (investments res)
           = map (investment_amount b s) (representatives (groupby (\<lambda>r. year_month (date r)) df))
     \<and> num_investments res = length (investments res)"
proof -
  let ?gs = "groupby (\<lambda>r. year_month (date r)) df"
  obtain ti tu invs where st: "foldl (sip_step b s) (0, 0, []) ?gs = (ti, tu, invs)"
    by (cases "foldl (sip_step b s) (0, 0, []) ?gs")
  from simulate_sip_result [OF assms st] obtain res where
    res: "simulate_sip df b s = Inr res" "investments res = invs"
      "num_investments res = length invs" by blast
  have "\<forall>kg \<in> set ?gs. snd kg \<noteq> []" by (rule groupby_groups_nonempty)
  from foldl_sip_step_columns [OF this, of b s 0 0 "[]"] st res show ?thesis by simp
qed


lemma representatives_of_groupby:
  "list_all2 (\<lambda>k r. r \<in> set df \<and> key r = k
                \<and> (\<forall>r' \<in> set df. key r' = k \<longrightarrow> date r \<le> date r'))
     (map fst (groupby key df)) (representatives (groupby key df))"
proof -
  have "r \<in> set df \<and> key r = k \<and> (\<forall>r' \<in> set df. key r' = k \<longrightarrow> date r \<le> date r')"
    if kg: "(k, g) \<in> set (groupby key df)" and r: "r = hd (sort_key date g)" for k g r
  proof -
    from groupby_member [OF kg] have g: "g \<noteq> []" "g = filter (\<lambda>r. key r = k) df"
      by blast+
    from hd_sort_key_in [OF g(1), of date] have "r \<in> set g" by (simp add: r)
    with g(2) have "r \<in> set df" "key r = k" by auto
    moreover have "date r \<le> date r'" if "r' \<in> set df" "key r' = k" for r'
    proof -
      from that g(2) have "r' \<in> set g" by auto
      from hd_sort_key_least [OF this, of date] show ?thesis by (simp add: r)
    qed
    ultimately show ?thesis by blast
  qed
  note rep = this
  show ?thesis
    unfolding representatives_def list_all2_map1 list_all2_map2 list_all2_same
  proof (intro ballI)
    fix kg assume "kg \<in> set (groupby key df)"
    then have "(fst kg, snd kg) \<in> set (groupby key df)" by simp
    from rep [OF this refl]
    show "hd (sort_key date (snd kg)) \<in> set df \<and> key (hd (sort_key date (snd kg))) = fst kg
        \<and> (\<forall>r' \<in> set df. key r' = fst kg \<longrightarrow> date (hd (sort_key date (snd kg))) \<le> date r')" .
  qed
qed

lemma months_of_representatives:
  "map key (representatives (groupby key df)) = sort (remdups (map key df))"
proof -
  have "list_all2 (\<lambda>k r. key r = k) (map fst (groupby key df)) (representatives (groupby key df))"
    by (rule list_all2_mono [OF representatives_of_groupby]) simp
  then have "map key (representatives (groupby key df)) = map fst (groupby key df)"
    by (simp add: list_all2_conv_all_nth list_eq_iff_nth_eq)
  then show ?thesis by (simp add: groupby_keys)
qed

section \<open>The example series, prepared\<close>

lemma prepared_scenario:
  "get_historical_data scenario_history =
     [\<lparr>date = (2024, 1, 1), nav = 100, nav_change = None, nav_ma_30 = None\<rparr>,
      \<lparr>date = (2024, 2, 1), nav = 97, nav_change = Some (- 3), nav_ma_30 = None\<rparr>,
      \<lparr>date = (2024, 3, 1), nav = 103, nav_change = Some (600 / 97), nav_ma_30 = None\<rparr>]"
  unfolding scenario_history_def by code_simp

lemma prepared_gap:
  "get_historical_data gap_history =
     [\<lparr>date = (2024, 1, 3), nav = 102, nav_change = None, nav_ma_30 = None\<rparr>,
      \<lparr>date = (2024, 1, 15), nav = 100, nav_change = Some (- (100 / 51)), nav_ma_30 = None\<rparr>,
      \<lparr>date = (2024, 3, 10), nav = 105, nav_change = Some 5, nav_ma_30 = None\<rparr>]"
  unfolding gap_history_def by code_simp

lemma prepared_two_month:
  "get_historical_data two_month_history =
     [\<lparr>date = (2024, 1, 1), nav = 100, nav_change = None, nav_ma_30 = None\<rparr>,
      \<lparr>date = (2024, 2, 1), nav = 110, nav_change = Some 10, nav_ma_30 = None\<rparr>]"
  unfolding two_month_history_def by code_simp

lemma groups_scenario:
  "groupby (\<lambda>r. year_month (date r)) (get_historical_data scenario_history) =
     [((2024, 1), [\<lparr>date = (2024, 1, 1), nav = 100, nav_change = None, nav_ma_30 = None\<rparr>]),
      ((2024, 2), [\<lparr>date = (2024, 2, 1), nav = 97, nav_change = Some (- 3), nav_ma_30 = None\<rparr>]),
      ((2024, 3), [\<lparr>date = (2024, 3, 1), nav = 103, nav_change = Some (600 / 97), nav_ma_30 = None\<rparr>])]"
  by (simp add: prepared_scenario groupby_def year_month_def)

lemma groups_gap:
  "groupby (\<lambda>r. year_month (date r)) (get_historical_data gap_history) =
     [((2024, 1), [\<lparr>date = (2024, 1, 3), nav = 102, nav_change = None, nav_ma_30 = None\<rparr>,
                   \<lparr>date = (2024, 1, 15), nav = 100, nav_change = Some (- (100 / 51)), nav_ma_30 = None\<rparr>]),
      ((2024, 3), [\<lparr>date = (2024, 3, 10), nav = 105, nav_change = Some 5, nav_ma_30 = None\<rparr>])]"
  by (simp add: prepared_gap groupby_def year_month_def)

section \<open>One contribution for every month with a point\<close>

text \<open>
  Claim C2. On a series with at least one row the simulator returns a result whose ledger
  has exactly one contribution for every calendar month (year and month) in which the
  series has a row, in ascending order of the months, and none for any other month;
  the contribution of a month is made at a row of the series (its date, NAV and change
  are recorded) whose date is the earliest of that month.
\<close>

theorem C2_one_contribution_per_month:
  assumes "df \<noteq> []"
  shows "\<exists>res. simulate_sip df base_amount strat = Inr res
     \<and> sorted_wrt (<) (map (\<lambda>c. year_month (inv_date c)) (investments res))
     \<and> set (map (\<lambda>c. year_month (inv_date c)) (investments res))
           = (\<lambda>r. year_month (date r)) ` set df
     \<and> num_investments res = card ((\<lambda>r. year_month (date r)) ` set df)
     \<and> (\<forall>c \<in> set (investments res). \<exists>r \<in> set df.
            inv_date c = date r \<and> inv_nav c = nav r \<and> inv_nav_change c = nav_change r
            \<and> (\<forall>r' \<in> set df. year_month (date r') = year_month (date r)
                   \<longrightarrow> date r \<le> date r'))"
proof -
  let ?key = "\<lambda>r :: nav_row. year_month (date r)"
  let ?reps = "representatives (groupby ?key df)"
  from ledger_of_simulation [OF assms, of base_amount strat] obtain res where
    res: "simulate_sip df base_amount strat = Inr res"
    and d: "map inv_date (investments res) = map date ?reps"
    and n: "map inv_nav (investments res) = map nav ?reps"
    and c: "map inv_nav_change (investments res) = map nav_change ?reps"
    and num: "num_investments res = length (investments res)"
    by blast
  have len: "length (investments res) = length ?reps"
    using d by (metis length_map)
  have months: "map (\<lambda>c. year_month (inv_date c)) (investments res)
      = sort (remdups (map ?key df))"
  proof -
    have "map (\<lambda>c. year_month (inv_date c)) (investments res)
        = map year_month (map inv_date (investments res))" by (simp add: o_def)
    also have "\<dots> = map ?key ?reps" by (simp add: d o_def)
    finally show ?thesis by (simp add: months_of_representatives)
  qed
  have 1: "sorted_wrt (<) (map (\<lambda>c. year_month (inv_date c)) (investments res))"
    by (simp add: months strict_sorted_iff)
  have 2: "set (map (\<lambda>c. year_month (inv_date c)) (investments res)) = ?key ` set df"
    by (simp only: months set_sort set_remdups set_map)
  have 3: "num_investments res = card (?key ` set df)"
  proof -
    have "length (investments res) = length (sort (remdups (map ?key df)))"
      using months by (metis length_map)
    then show ?thesis by (simp add: num length_remdups_card_conv)
  qed
  have 4: "\<exists>r \<in> set df.
            inv_date c = date r \<and> inv_nav c = nav r \<and> inv_nav_change c = nav_change r
            \<and> (\<forall>r' \<in> set df. ?key r' = ?key r \<longrightarrow> date r \<le> date r')"
    if "c \<in> set (investments res)" for c
  proof -
    from that obtain i where i: "i < length (investments res)" "c = investments res ! i"
      by (auto simp: in_set_conv_nth)
    let ?r = "?reps ! i"
    from i len have ir: "i < length ?reps" by simp
    have "inv_date c = date ?r"
      using d i ir by (metis nth_map)
    moreover have "inv_nav c = nav ?r"
      using n i ir by (metis nth_map)
    moreover have "inv_nav_change c = nav_change ?r"
      using c i ir by (metis nth_map)
    moreover have "?r \<in> set df \<and> (\<forall>r' \<in> set df. ?key r' = ?key ?r \<longrightarrow> date ?r \<le> date r')"
      using representatives_of_groupby [of df ?key] ir
      by (auto simp: list_all2_conv_all_nth)
    ultimately show ?thesis by blast
  qed
  from res 1 2 3 4 show ?thesis by blast
qed


text \<open>On the gap series: a contribution for January, at the third, the earlier of its two days, none for February, one for March.\<close>

theorem C2_one_contribution_per_month_witness:
  "(\<exists>res. simulate_sip (get_historical_data gap_history) 1000 ''regular'' = Inr res
      \<and> set (map (\<lambda>c. year_month (inv_date c)) (investments res)) = {(2024, 1), (2024, 3)}
      \<and> num_investments res = 2)
   \<and> map_sum id (map inv_date \<circ> investments)
         (simulate_sip (get_historical_data gap_history) 1000 ''regular'')
       = Inr [(2024, 1, 3), (2024, 3, 10)]"
proof -
  have ne: "get_historical_data gap_history \<noteq> []"
    by (simp add: prepared_gap)
  have "(\<lambda>r. year_month (date r)) ` set (get_historical_data gap_history) = {(2024, 1), (2024, 3)}"
    by (simp add: prepared_gap year_month_def)
  with C2_one_contribution_per_month [OF ne, of 1000 "''regular''"]
  have "\<exists>res. simulate_sip (get_historical_data gap_history) 1000 ''regular'' = Inr res
      \<and> set (map (\<lambda>c. year_month (inv_date c)) (investments res)) = {(2024, 1), (2024, 3)}
      \<and> num_investments res = 2"
    by auto
  moreover have "map_sum id (map inv_date \<circ> investments)
         (simulate_sip (get_historical_data gap_history) 1000 ''regular'')
       = Inr [(2024, 1, 3), (2024, 3, 10)]"
    by (simp add: simulate_sip_def groups_gap sip_step_def investment_amount_def Let_def)
       (simp add: prepared_gap)
  ultimately show ?thesis by blast
qed

section \<open>The amount of a contribution\<close>

text \<open>
  Claim C3. On a series with at least one row the simulator returns a result in which
  every contribution has, under the strategy \<^verbatim>\<open>enhanced\<close>, the amount base times
  multiplier: the multiplier is 1 when the recorded percent change is undefined, and
  otherwise the ladder's value at the recorded price, the previous price rebuilt as
  price / (1 + percentChange / 100), and the percent change; under any other strategy
  (the fixed one) the amount is the base amount. On the scenario series with base 1000
  the variable contributions are 1000, 2000 and 850.
\<close>

theorem C3_contribution_amount:
  assumes "df \<noteq> []"
  shows "(\<exists>res. simulate_sip df base_amount strat = Inr res
      \<and> (\<forall>c \<in> set (investments res).
            amount c =
              (if strat = ''enhanced'' then
                 base_amount *
                   (case inv_nav_change c of
                      None \<Rightarrow> 1
                    | Some percentChange \<Rightarrow>
                        calculate_enhanced_multiplier (inv_nav c)
                          (inv_nav c / (1 + percentChange / 100)) percentChange)
               else base_amount)))
    \<and> map_sum id (map amount \<circ> investments)
          (simulate_sip (get_historical_data scenario_history) 1000 ''enhanced'')
        = Inr [1000, 2000, 850]"
proof -
  let ?reps = "representatives (groupby (\<lambda>r. year_month (date r)) df)"
  from ledger_of_simulation [OF assms, of base_amount strat] obtain res where
    res: "simulate_sip df base_amount strat = Inr res"
    and n: "map inv_nav (investments res) = map nav ?reps"
    and c: "map inv_nav_change (investments res) = map nav_change ?reps"
    and a: "map amount (investments res) = map (investment_amount base_amount strat) ?reps"
    by blast
  have len: "length (investments res) = length ?reps"
    using n by (metis length_map)
  have "amount c =
      (if strat = ''enhanced'' then
         base_amount *
           (case inv_nav_change c of
              None \<Rightarrow> 1
            | Some percentChange \<Rightarrow>
                calculate_enhanced_multiplier (inv_nav c)
                  (inv_nav c / (1 + percentChange / 100)) percentChange)
       else base_amount)"
    if "c \<in> set (investments res)" for c
  proof -
    from that obtain i where i: "i < length (investments res)" "c = investments res ! i"
      by (auto simp: in_set_conv_nth)
    let ?r = "?reps ! i"
    from i len have ir: "i < length ?reps" by simp
    have "inv_nav c = nav ?r"
      using n i ir by (metis nth_map)
    moreover have "inv_nav_change c = nav_change ?r"
      using c i ir by (metis nth_map)
    moreover have "amount c = investment_amount base_amount strat ?r"
      using a i ir by (metis nth_map)
    ultimately show ?thesis
      by (simp add: investment_amount_def Let_def split: option.splits)
  qed
  with res have "\<exists>res. simulate_sip df base_amount strat = Inr res
      \<and> (\<forall>c \<in> set (investments res).
            amount c =
              (if strat = ''enhanced'' then
                 base_amount *
                   (case inv_nav_change c of
                      None \<Rightarrow> 1
                    | Some percentChange \<Rightarrow>
                        calculate_enhanced_multiplier (inv_nav c)
                          (inv_nav c / (1 + percentChange / 100)) percentChange)
               else base_amount))"
    by blast
  moreover have "map_sum id (map amount \<circ> investments)
          (simulate_sip (get_historical_data scenario_history) 1000 ''enhanced'')
        = Inr [1000, 2000, 850]"
    by (simp add: simulate_sip_def groups_scenario sip_step_def investment_amount_def
          calculate_enhanced_multiplier_def Let_def)
       (simp add: prepared_scenario)
  ultimately show ?thesis by blast
qed

text \<open>On the scenario series the fixed strategy invests 1000 every month.\<close>

theorem C3_contribution_amount_witness:
  "\<exists>res. simulate_sip (get_historical_data scenario_history) 1000 ''regular'' = Inr res
      \<and> (\<forall>c \<in> set (investments res). amount c = 1000)"
proof -
  have ne: "get_historical_data scenario_history \<noteq> []"
    by (simp add: prepared_scenario)
  from C3_contribution_amount [OF ne, of 1000 "''regular''"] show ?thesis
    by simp
qed

section \<open>Totals and the ledger\<close>

lemma py_round_zero: "py_round 0 n = 0"
  by (simp add: py_round_def round_half_even_def)

lemma totals_of_simulation:
  assumes "df \<noteq> []"
  shows "\<exists>res ti tu. simulate_sip df b s = Inr res
     \<and> foldl (sip_step b s) (0, 0, []) (groupby (\<lambda>r. year_month (date r)) df)
           = (ti, tu, investments res)
     \<and> investments res \<noteq> []
     \<and> ti = sum_list (map amount (investments res))
     \<and> tu = sum_list (map units (investments res))
     \<and> (\<forall>i < length (investments res).
           inv_total_invested (investments res ! i)
             = sum_list (map amount (take (Suc i) (investments res)))
         \<and> inv_total_units (investments res ! i)
             = sum_list (map units (take (Suc i) (investments res))))"
proof -
  let ?gs = "groupby (\<lambda>r. year_month (date r)) df"
  obtain ti tu invs where st: "foldl (sip_step b s) (0, 0, []) ?gs = (ti, tu, invs)"
    by (cases "foldl (sip_step b s) (0, 0, []) ?gs")
  from simulate_sip_result [OF assms st] obtain res where
    res: "simulate_sip df b s = Inr res" "investments res = invs" by blast
  have "running_totals (ti, tu, invs)"
    using running_totals_foldl [OF running_totals_start, of b s ?gs] st by simp
  then have run: "ti = sum_list (map amount invs)" "tu = sum_list (map units invs)"
    "\<forall>i < length invs.
        inv_total_invested (invs ! i) = sum_list (map amount (take (Suc i) invs))
      \<and> inv_total_units (invs ! i) = sum_list (map units (take (Suc i) invs))"
    by (simp_all add: running_totals_def list_all_iff)
  have "\<forall>kg \<in> set ?gs. snd kg \<noteq> []" by (rule groupby_groups_nonempty)
  from foldl_sip_step_columns [OF this, of b s 0 0 "[]"] st
  have "map inv_date invs = map date (representatives ?gs)" by simp
  then have "length invs = length ?gs"
    by (metis length_map representatives_def)
  moreover have "?gs \<noteq> []"
    using assms by (simp add: groupby_def sort_key_Nil_iff)
  ultimately have "invs \<noteq> []" by auto
  with res st run show ?thesis by auto
qed

text \<open>
  Claim C5, as the program has it. The loop adds up exactly: after it the running
  totals are the sums of the amounts and of the units of the ledger, and the cumulative
  fields of the last contribution are these sums. The result then reports the totals
  rounded, \<^verbatim>\<open>round(total_units, 3)\<close> and \<^verbatim>\<open>round(total_invested, 2)\<close>
  (lines 153-154), while the ledger keeps the unrounded numbers.
\<close>

theorem C5_totals_are_rounded_sums:
  assumes "df \<noteq> []"
  shows "\<exists>res. simulate_sip df base_amount strat = Inr res
     \<and> investments res \<noteq> []
     \<and> total_units res = py_round (sum_list (map units (investments res))) 3
     \<and> total_invested res = py_round (sum_list (map amount (investments res))) 2
     \<and> inv_total_units (last (investments res)) = sum_list (map units (investments res))
     \<and> inv_total_invested (last (investments res))
           = sum_list (map amount (investments res))"
proof -
  from totals_of_simulation [OF assms, of base_amount strat] obtain res ti tu where
    res: "simulate_sip df base_amount strat = Inr res"
    and st: "foldl (sip_step base_amount strat) (0, 0, [])
               (groupby (\<lambda>r. year_month (date r)) df) = (ti, tu, investments res)"
    and ne: "investments res \<noteq> []"
    and ti: "ti = sum_list (map amount (investments res))"
    and tu: "tu = sum_list (map units (investments res))"
    and cum: "\<forall>i < length (investments res).
           inv_total_invested (investments res ! i)
             = sum_list (map amount (take (Suc i) (investments res)))
         \<and> inv_total_units (investments res ! i)
             = sum_list (map units (take (Suc i) (investments res)))"
    by blast
  from simulate_sip_result [OF assms st] res
  have tot: "total_invested res = py_round ti 2" "total_units res = py_round tu 3"
    by auto
  let ?n = "length (investments res)"
  from ne have "?n - 1 < ?n" by simp
  with cum have "inv_total_invested (investments res ! (?n - 1))
             = sum_list (map amount (take (Suc (?n - 1)) (investments res)))
         \<and> inv_total_units (investments res ! (?n - 1))
             = sum_list (map units (take (Suc (?n - 1)) (investments res)))"
    by blast
  with ne have "inv_total_invested (last (investments res))
             = sum_list (map amount (investments res))
         \<and> inv_total_units (last (investments res))
             = sum_list (map units (investments res))"
    by (simp add: last_conv_nth)
  with res ne tot ti tu show ?thesis by auto
qed

text \<open>On the scenario series, fixed strategy.\<close>

theorem C5_totals_are_rounded_sums_witness:
  "\<exists>res. simulate_sip (get_historical_data scenario_history) 1000 ''regular'' = Inr res
     \<and> total_units res = py_round (sum_list (map units (investments res))) 3
     \<and> inv_total_units (last (investments res)) = sum_list (map units (investments res))"
proof -
  have ne: "get_historical_data scenario_history \<noteq> []"
    by (simp add: prepared_scenario)
  from C5_totals_are_rounded_sums [OF ne, of 1000 "''regular''"] show ?thesis
    by blast
qed

text \<open>
  Claim C5 as stated fails on the specification's own scenario (base 1000, fixed
  strategy): the reported total of units is 30.018, the sum of the units bought, which
  is also the last contribution's cumulative figure, is 10 + 1000/97 + 1000/103.
\<close>

theorem C5_rounded_total_counterexample:
  "map_sum id (\<lambda>res. (total_units res, sum_list (map units (investments res)),
                      inv_total_units (last (investments res))))
     (simulate_sip (get_historical_data scenario_history) 1000 ''regular'')
     = Inr (30018 / 1000, 10 + 1000 / 97 + 1000 / 103, 10 + 1000 / 97 + 1000 / 103)
   \<and> (30018 / 1000 :: real) \<noteq> 10 + 1000 / 97 + 1000 / 103"
  by (simp add: simulate_sip_def groups_scenario sip_step_def investment_amount_def Let_def)
     (simp add: prepared_scenario py_round_def round_half_even_def Let_def)

section \<open>The ratios of the summary\<close>

text \<open>
  Two of the three ratios of lines 145-149 are guarded: the percent return is 0 unless
  something positive was invested, the growth rate is 0 unless time has passed.
\<close>

lemma investment_amount_zero: "investment_amount 0 s r = 0"
  by (simp add: investment_amount_def)

lemma guards_of_the_summary:
  assumes "df \<noteq> []"
  shows "\<exists>res. simulate_sip df b strat = Inr res
     \<and> (sum_list (map amount (investments res)) \<le> 0 \<longrightarrow> return_percent res = 0)
     \<and> (days_between (date (hd df)) (date (last df)) \<le> 0 \<longrightarrow> cagr res = Some 0)"
proof -
  from totals_of_simulation [OF assms, of b strat] obtain res ti tu where
    res: "simulate_sip df b strat = Inr res"
    and st: "foldl (sip_step b strat) (0, 0, [])
               (groupby (\<lambda>r. year_month (date r)) df) = (ti, tu, investments res)"
    and ti: "ti = sum_list (map amount (investments res))"
    by blast
  from simulate_sip_result [OF assms st] res ti show ?thesis
    by (auto simp: py_round_zero)
qed

text \<open>
  Claim C7 fails on the program. Line 149 divides by \<^verbatim>\<open>total_invested\<close> under the
  test \<^verbatim>\<open>years > 0\<close> only, where line 145 tests \<^verbatim>\<open>total_invested > 0\<close>. With a
  base amount of 0 nothing is invested; the percent return is the fallback 0, but as
  soon as the series spans more than a day the growth rate is the quotient 0 / 0,
  not a number, and not the fallback 0.
\<close>

theorem C7_growth_rate_unguarded:
  assumes "df \<noteq> []"
  shows "\<exists>res. simulate_sip df 0 strat = Inr res
     \<and> total_invested res = 0
     \<and> return_percent res = 0
     \<and> cagr res = (if 0 < days_between (date (hd df)) (date (last df)) then None
                    else Some 0)"
proof -
  let ?gs = "groupby (\<lambda>r. year_month (date r)) df"
  from totals_of_simulation [OF assms, of 0 strat] obtain res ti tu where
    res: "simulate_sip df 0 strat = Inr res"
    and st: "foldl (sip_step 0 strat) (0, 0, []) ?gs = (ti, tu, investments res)"
    and ti: "ti = sum_list (map amount (investments res))"
    by blast
  have "\<forall>kg \<in> set ?gs. snd kg \<noteq> []" by (rule groupby_groups_nonempty)
  from foldl_sip_step_columns [OF this, of 0 strat 0 0 "[]"] st
  have "map amount (investments res) = map (investment_amount 0 strat) (representatives ?gs)"
    by simp
  then have "map amount (investments res) = map (\<lambda>r. 0) (representatives ?gs)"
    by (simp add: investment_amount_zero)
  with ti have zero: "ti = 0" by simp
  from simulate_sip_result [OF assms st] res zero show ?thesis
    by (auto simp: py_round_zero)
qed

text \<open>On the series of two months, 31 days apart, with a base amount of 0: nothing is invested, the percent return is 0, the growth rate is not a number.\<close>

theorem C7_growth_rate_unguarded_witness:
  "map_sum id (\<lambda>res. (total_invested res, return_percent res, cagr res))
     (simulate_sip (get_historical_data two_month_history) 0 ''regular'')
     = Inr (0, 0, None)"
proof -
  have ne: "get_historical_data two_month_history \<noteq> []"
    by (simp add: prepared_two_month)
  have "days_between (date (hd (get_historical_data two_month_history)))
          (date (last (get_historical_data two_month_history))) = 31"
    by (simp add: prepared_two_month days_between_def days_from_civil_def)
  with C7_growth_rate_unguarded [OF ne, of "''regular''"] show ?thesis
    by auto
qed

section \<open>Indexing from the end\<close>

lemma iloc_last: "xs \<noteq> [] \<Longrightarrow> iloc xs (- 1) = Inr (last xs)"
proof -
  assume "xs \<noteq> []"
  then have n: "0 < length xs" by simp
  then have "nat (int (length xs) + - 1) = length xs - 1" by linarith
  with n show ?thesis
    by (simp add: iloc_def last_conv_nth Suc_le_eq)
qed

lemma iloc_before_last:
  "iloc xs (- 2) = (if 2 \<le> length xs then Inr (xs ! (length xs - 2)) else Inl IndexError)"
proof (cases "2 \<le> length xs")
  case True
  then have "nat (int (length xs) + - 2) = length xs - 2" by linarith
  with True show ?thesis by (simp add: iloc_def)
next
  case False
  then show ?thesis by (simp add: iloc_def)
qed


lemma iloc_nat: "n < length xs \<Longrightarrow> iloc xs (int n) = Inr (xs ! n)"
  by (simp add: iloc_def)

lemma iloc_pred:
  assumes "i < length xs"
  shows "iloc xs (int i - 1) = Inr (if i = 0 then last xs else xs ! (i - 1))"
proof (cases "i = 0")
  case True
  with assms have "xs \<noteq> []" by auto
  with True show ?thesis by (simp add: iloc_last)
next
  case False
  then have eq: "int i - 1 = int (i - 1)" by simp
  from assms have "i - 1 < length xs" by simp
  from iloc_nat [OF this] False show ?thesis
    unfolding eq by simp
qed

lemma collect_map_Inr:
  "(\<And>x. x \<in> set xs \<Longrightarrow> g x = Inr (f x)) \<Longrightarrow> collect (map g xs) = Inr (map f xs)"
  by (induction xs) simp_all

lemma length_analyze_nav_trends: "length (analyze_nav_trends history) = length history"
  using arg_cong [OF dates_analyze_nav_trends, of length] by simp

lemma length_get_historical_data: "length (get_historical_data history) = length history"
  using arg_cong [OF dates_get_historical_data, of length] by simp

section \<open>The strategy of the current month needs two points\<close>

lemma monthly_strategy_one:
  assumes "length (analyze_nav_trends history) = 1"
  shows "get_monthly_investment_strategy history base_amount = Inl IndexError"
proof -
  from assms have ne: "analyze_nav_trends history \<noteq> []" by auto
  from assms have two: "\<not> 2 \<le> length (analyze_nav_trends history)" by simp
  show ?thesis
    unfolding get_monthly_investment_strategy_def Let_def
    by (simp add: ne iloc_last iloc_before_last two del: One_nat_def)
qed

lemma monthly_strategy_many:
  assumes "2 \<le> length (analyze_nav_trends history)"
  shows "\<exists>s. get_monthly_investment_strategy history base_amount = Inr (Some s)"
proof -
  from assms have ne: "analyze_nav_trends history \<noteq> []" by auto
  show ?thesis
    unfolding get_monthly_investment_strategy_def Let_def
    by (simp add: ne iloc_last iloc_before_last assms)
qed

lemma monthly_strategy_none:
  assumes "analyze_nav_trends history = []"
  shows "get_monthly_investment_strategy history base_amount = Inr None"
  using assms by (simp add: get_monthly_investment_strategy_def)


text \<open>
  Claim C10. The analysed series has as many points as the history has records. On a
  series of exactly one point the operation fails with \<^verbatim>\<open>IndexError\<close>: the test for
  an empty frame lets it through and \<^verbatim>\<open>df.iloc[-2]\<close> is out of bounds. It returns a
  strategy exactly when the series has two points or more; on a series without points
  it returns the empty dictionary.
\<close>

theorem C10_monthly_strategy_needs_two_points:
  "length (analyze_nav_trends history) = length history
   \<and> (length (analyze_nav_trends history) = 1
        \<longrightarrow> get_monthly_investment_strategy history base_amount = Inl IndexError)
   \<and> ((\<exists>s. get_monthly_investment_strategy history base_amount = Inr (Some s))
        \<longleftrightarrow> 2 \<le> length (analyze_nav_trends history))
   \<and> (analyze_nav_trends history = []
        \<longrightarrow> get_monthly_investment_strategy history base_amount = Inr None)"
proof -
  let ?df = "analyze_nav_trends history"
  have "2 \<le> length ?df"
    if s: "get_monthly_investment_strategy history base_amount = Inr (Some s)" for s
  proof (rule ccontr)
    assume "\<not> 2 \<le> length ?df"
    then have "length ?df = 0 \<or> length ?df = 1" by arith
    then show False
    proof
      assume "length ?df = 0"
      then have "?df = []" by simp
      from monthly_strategy_none [OF this, of base_amount] s show False by simp
    next
      assume "length ?df = 1"
      from monthly_strategy_one [OF this, of base_amount] s show False by simp
    qed
  qed
  with monthly_strategy_one [of history base_amount]
    monthly_strategy_many [of history base_amount]
    monthly_strategy_none [of history base_amount]
  show ?thesis
    by (auto simp: length_analyze_nav_trends simp del: One_nat_def)
qed

text \<open>A history of one record fails; the history of two months gives a strategy.\<close>

theorem C10_monthly_strategy_needs_two_points_witness:
  "get_monthly_investment_strategy [\<lparr>date = (2024, 1, 1), nav = 100\<rparr>] 10000 = Inl IndexError
   \<and> (\<exists>s. get_monthly_investment_strategy two_month_history 10000 = Inr (Some s))"
  using C10_monthly_strategy_needs_two_points [of "[\<lparr>date = (2024, 1, 1), nav = 100\<rparr>]" 10000]
    C10_monthly_strategy_needs_two_points [of two_month_history 10000]
  by (simp add: two_month_history_def)

section \<open>Rolling returns over the ledger\<close>

lemma rolling_point_value:
  assumes "w \<le> i" and "i < length invs"
  shows "rolling_point invs w i =
     Inr \<lparr>rr_date = inv_date (if i = 0 then last invs else invs ! (i - 1)),
          rr_invested = sum_list (map amount (take w (drop (i - w) invs))),
          rr_value = sum_list (map units (take w (drop (i - w) invs)))
                       * inv_nav (if i = 0 then last invs else invs ! (i - 1)),
          rr_return_percent =
            (if 0 < sum_list (map amount (take w (drop (i - w) invs)))
             then (sum_list (map units (take w (drop (i - w) invs)))
                     * inv_nav (if i = 0 then last invs else invs ! (i - 1))
                   - sum_list (map amount (take w (drop (i - w) invs))))
                  / sum_list (map amount (take w (drop (i - w) invs))) * 100
             else 0)\<rparr>"
proof -
  from assms have "i - (i - w) = w" by simp
  then show ?thesis
    unfolding rolling_point_def Let_def
    by (simp add: iloc_pred [OF assms(2)])
qed

lemma rolling_point_total:
  assumes "w \<le> i" and "i < length invs"
  shows "\<exists>p. rolling_point invs w i = Inr p"
  using rolling_point_value [OF assms] by blast

lemma rolling_returns_points:
  assumes "invs \<noteq> []"
  shows "\<exists>pts. calculate_rolling_returns invs w = Inr pts
     \<and> length pts = length invs - w
     \<and> (\<forall>i. w \<le> i \<and> i < length invs
            \<longrightarrow> rolling_point invs w i = Inr (pts ! (i - w)))"
proof -
  define f where "f i = projr (rolling_point invs w i)" for i
  have "collect (map (rolling_point invs w) [w..<length invs]) = Inr (map f [w..<length invs])"
  proof (rule collect_map_Inr)
    fix i assume "i \<in> set [w..<length invs]"
    then have "w \<le> i" "i < length invs" by simp_all
    from rolling_point_total [OF this] show "rolling_point invs w i = Inr (f i)"
      by (auto simp: f_def)
  qed
  with assms have 1: "calculate_rolling_returns invs w = Inr (map f [w..<length invs])"
    by (simp add: calculate_rolling_returns_def)
  have 2: "rolling_point invs w i = Inr (map f [w..<length invs] ! (i - w))"
    if "w \<le> i" "i < length invs" for i
  proof -
    from that have "map f [w..<length invs] ! (i - w) = f i" by simp
    with rolling_point_total [OF that] show ?thesis by (auto simp: f_def)
  qed
  from 1 2 show ?thesis by auto
qed


text \<open>
  Claim C6, as the program has it. For a ledger with at least one contribution and a
  window of \<open>w\<close> months the calculator returns one point for every index \<open>i\<close> with
  \<open>w \<le> i < n\<close>, \<open>n - w\<close> points in all (three for \<open>w = 12\<close> and \<open>n = 15\<close>). The point
  of index \<open>i\<close> sums the amounts and the units of the contributions \<open>i - w, \<dots>, i - 1\<close>,
  takes date and price from \<^verbatim>\<open>iloc[i - 1]\<close> (the contribution before \<open>i\<close>), values the
  units at that price, and reports (value - invested) / invested * 100 when the
  invested sum is positive and 0 otherwise.
\<close>

theorem C6_rolling_returns:
  assumes "invs \<noteq> []"
  shows "\<exists>pts. calculate_rolling_returns invs w = Inr pts
     \<and> length pts = length invs - w
     \<and> (\<forall>i. w \<le> i \<and> i < length invs \<longrightarrow>
          (\<exists>row. iloc invs (int i - 1) = Inr row
             \<and> (0 < i \<longrightarrow> row = invs ! (i - 1))
             \<and> rr_date (pts ! (i - w)) = inv_date row
             \<and> rr_invested (pts ! (i - w))
                   = sum_list (map amount (take w (drop (i - w) invs)))
             \<and> rr_value (pts ! (i - w))
                   = sum_list (map units (take w (drop (i - w) invs))) * inv_nav row
             \<and> rr_return_percent (pts ! (i - w))
                   = (if 0 < rr_invested (pts ! (i - w))
                      then (rr_value (pts ! (i - w)) - rr_invested (pts ! (i - w)))
                             / rr_invested (pts ! (i - w)) * 100
                      else 0)))"
proof -
  from rolling_returns_points [OF assms, of w] obtain pts where
    pts: "calculate_rolling_returns invs w = Inr pts" "length pts = length invs - w"
    and at: "\<forall>i. w \<le> i \<and> i < length invs
            \<longrightarrow> rolling_point invs w i = Inr (pts ! (i - w))"
    by blast
  have "\<exists>row. iloc invs (int i - 1) = Inr row
             \<and> (0 < i \<longrightarrow> row = invs ! (i - 1))
             \<and> rr_date (pts ! (i - w)) = inv_date row
             \<and> rr_invested (pts ! (i - w))
                   = sum_list (map amount (take w (drop (i - w) invs)))
             \<and> rr_value (pts ! (i - w))
                   = sum_list (map units (take w (drop (i - w) invs))) * inv_nav row
             \<and> rr_return_percent (pts ! (i - w))
                   = (if 0 < rr_invested (pts ! (i - w))
                      then (rr_value (pts ! (i - w)) - rr_invested (pts ! (i - w)))
                             / rr_invested (pts ! (i - w)) * 100
                      else 0)"
    if i: "w \<le> i" "i < length invs" for i
  proof -
    from at i have "rolling_point invs w i = Inr (pts ! (i - w))" by blast
    with rolling_point_value [OF i] have p: "pts ! (i - w) =
       \<lparr>rr_date = inv_date (if i = 0 then last invs else invs ! (i - 1)),
          rr_invested = sum_list (map amount (take w (drop (i - w) invs))),
          rr_value = sum_list (map units (take w (drop (i - w) invs)))
                       * inv_nav (if i = 0 then last invs else invs ! (i - 1)),
          rr_return_percent =
            (if 0 < sum_list (map amount (take w (drop (i - w) invs)))
             then (sum_list (map units (take w (drop (i - w) invs)))
                     * inv_nav (if i = 0 then last invs else invs ! (i - 1))
                   - sum_list (map amount (take w (drop (i - w) invs))))
                  / sum_list (map amount (take w (drop (i - w) invs))) * 100
             else 0)\<rparr>"
      by simp
    show ?thesis
      by (rule exI [of _ "if i = 0 then last invs else invs ! (i - 1)"])
         (simp add: p iloc_pred [OF i(2)])
  qed
  with pts show ?thesis by blast
qed

text \<open>Fifteen contributions, window 12: three points, the first over twelve contributions.\<close>

theorem C6_rolling_returns_witness:
  "\<exists>pts. calculate_rolling_returns level_ledger 12 = Inr pts \<and> length pts = 3
      \<and> rr_invested (pts ! 0) = 12000 \<and> rr_value (pts ! 0) = 12000
      \<and> rr_return_percent (pts ! 0) = 0"
proof -
  have ne: "level_ledger \<noteq> []" by (simp add: level_ledger_def)
  from C6_rolling_returns [OF ne, of 12] obtain pts where
    pts: "calculate_rolling_returns level_ledger 12 = Inr pts"
      "length pts = length level_ledger - 12"
    and at: "\<forall>i. 12 \<le> i \<and> i < length level_ledger \<longrightarrow>
          (\<exists>row. iloc level_ledger (int i - 1) = Inr row
             \<and> (0 < i \<longrightarrow> row = level_ledger ! (i - 1))
             \<and> rr_date (pts ! (i - 12)) = inv_date row
             \<and> rr_invested (pts ! (i - 12))
                   = sum_list (map amount (take 12 (drop (i - 12) level_ledger)))
             \<and> rr_value (pts ! (i - 12))
                   = sum_list (map units (take 12 (drop (i - 12) level_ledger))) * inv_nav row
             \<and> rr_return_percent (pts ! (i - 12))
                   = (if 0 < rr_invested (pts ! (i - 12))
                      then (rr_value (pts ! (i - 12)) - rr_invested (pts ! (i - 12)))
                             / rr_invested (pts ! (i - 12)) * 100
                      else 0))"
    by blast
  from at [rule_format, of 12] have
    "rr_invested (pts ! 0) = 12000 \<and> rr_value (pts ! 0) = 12000
      \<and> rr_return_percent (pts ! 0) = 0"
    by (auto simp: level_ledger_def sum_list_replicate)
  with pts show ?thesis by (auto simp: level_ledger_def)
qed

text \<open>
  Claim C6 as stated fails at two places. An empty ledger gives no list of points:
  line 179 raises \<^verbatim>\<open>KeyError\<close>. And the fallback 0 is taken whenever the invested
  sum is not positive, not only when it is 0: over the first two contributions of the
  negative ledger the sum is -2000 and the value -1500, the program reports 0 and the
  formula of the claim gives -25.
\<close>

theorem C6_rolling_returns_counterexample:
  "calculate_rolling_returns [] 12 = Inl KeyError
   \<and> map_sum id (map (\<lambda>p. (rr_invested p, rr_value p, rr_return_percent p)))
         (calculate_rolling_returns negative_ledger 2)
       = Inr [(- 2000, - 1500, 0)]
   \<and> (- 1500 - (- 2000)) / (- 2000) * 100 = (- 25 :: real)"
  by (simp add: calculate_rolling_returns_def negative_ledger_def rolling_point_def
        iloc_def Let_def)

section \<open>The comparison of the strategies\<close>

lemma simulate_sip_total:
  assumes "df \<noteq> []"
  shows "\<exists>res. simulate_sip df b s = Inr res \<and> investments res \<noteq> []"
  using totals_of_simulation [OF assms, of b s] by blast

lemma returns_of_scenario:
  "map_sum id (\<lambda>res. (absolute_return res, return_percent res))
     (simulate_sip (get_historical_data scenario_history) 1000 ''regular'')
     = Inr (9186 / 100, 306 / 100)"
  "map_sum id (\<lambda>res. (absolute_return res, return_percent res))
     (simulate_sip (get_historical_data scenario_history) 1000 ''enhanced'')
     = Inr (15371 / 100, 399 / 100)"
  by (simp add: simulate_sip_def groups_scenario sip_step_def investment_amount_def
        calculate_enhanced_multiplier_def Let_def,
      simp add: prepared_scenario py_round_def round_half_even_def Let_def)+

text \<open>
  Claim C9, as the program has it. On an empty history the comparator raises nothing:
  it returns the empty dictionary of line 226, and neither simulation nor comparison is
  made. On a history with at least one record it returns a comparison that holds the
  results of the two simulations over the prepared series and of the two rolling
  calculations with window 12, and the two differences: absolute return and percent
  return of the variable strategy minus those of the fixed one (the rounded figures
  of the two results).
\<close>

theorem C9_comparison:
  "(history = [] \<longrightarrow> compare_strategies history base_amount = Inr None)
   \<and> (history \<noteq> [] \<longrightarrow>
        (\<exists>c. compare_strategies history base_amount = Inr (Some c)
           \<and> simulate_sip (get_historical_data history) base_amount ''regular''
                 = Inr (regular c)
           \<and> simulate_sip (get_historical_data history) base_amount ''enhanced''
                 = Inr (enhanced c)
           \<and> calculate_rolling_returns (investments (regular c)) 12
                 = Inr (regular_rolling c)
           \<and> calculate_rolling_returns (investments (enhanced c)) 12
                 = Inr (enhanced_rolling c)
           \<and> outperformance c = absolute_return (enhanced c) - absolute_return (regular c)
           \<and> outperformance_pct c = return_percent (enhanced c) - return_percent (regular c)))"
proof (intro conjI impI)
  assume "history = []"
  then show "compare_strategies history base_amount = Inr None"
    by (simp add: compare_strategies_def get_historical_data_def)
next
  assume "history \<noteq> []"
  let ?df = "get_historical_data history"
  from \<open>history \<noteq> []\<close> have ne: "?df \<noteq> []"
    using length_get_historical_data [of history] by auto
  from simulate_sip_total [OF ne, of base_amount "''regular''"] obtain reg where
    reg: "simulate_sip ?df base_amount ''regular'' = Inr reg" "investments reg \<noteq> []"
    by blast
  from simulate_sip_total [OF ne, of base_amount "''enhanced''"] obtain enh where
    enh: "simulate_sip ?df base_amount ''enhanced'' = Inr enh" "investments enh \<noteq> []"
    by blast
  from rolling_returns_points [OF reg(2), of 12] obtain rr where
    rr: "calculate_rolling_returns (investments reg) 12 = Inr rr" by blast
  from rolling_returns_points [OF enh(2), of 12] obtain er where
    er: "calculate_rolling_returns (investments enh) 12 = Inr er" by blast
  show "\<exists>c. compare_strategies history base_amount = Inr (Some c)
           \<and> simulate_sip ?df base_amount ''regular'' = Inr (regular c)
           \<and> simulate_sip ?df base_amount ''enhanced'' = Inr (enhanced c)
           \<and> calculate_rolling_returns (investments (regular c)) 12
                 = Inr (regular_rolling c)
           \<and> calculate_rolling_returns (investments (enhanced c)) 12
                 = Inr (enhanced_rolling c)
           \<and> outperformance c = absolute_return (enhanced c) - absolute_return (regular c)
           \<and> outperformance_pct c = return_percent (enhanced c) - return_percent (regular c)"
    using ne reg enh rr er
    by (simp add: compare_strategies_def Let_def)
qed

text \<open>The empty history, and the scenario series with base 1000: absolute returns 91.86 and 153.71, percent returns 3.06 and 3.99.\<close>

theorem C9_comparison_witness:
  "compare_strategies [] 10000 = Inr None
   \<and> (\<exists>c. compare_strategies scenario_history 1000 = Inr (Some c)
          \<and> outperformance c = 6185 / 100 \<and> outperformance_pct c = 93 / 100)"
proof -
  have ne: "scenario_history \<noteq> []" by (simp add: scenario_history_def)
  from C9_comparison [of scenario_history 1000] ne obtain c where
    c: "compare_strategies scenario_history 1000 = Inr (Some c)"
    and reg: "simulate_sip (get_historical_data scenario_history) 1000 ''regular''
                = Inr (regular c)"
    and enh: "simulate_sip (get_historical_data scenario_history) 1000 ''enhanced''
                = Inr (enhanced c)"
    and out: "outperformance c = absolute_return (enhanced c) - absolute_return (regular c)"
      "outperformance_pct c = return_percent (enhanced c) - return_percent (regular c)"
    by blast
  from returns_of_scenario(1) reg
  have r: "absolute_return (regular c) = 9186 / 100" "return_percent (regular c) = 306 / 100"
    by simp_all
  from returns_of_scenario(2) enh
  have e: "absolute_return (enhanced c) = 15371 / 100" "return_percent (enhanced c) = 399 / 100"
    by simp_all
  from C9_comparison [of "[]" 10000] have "compare_strategies [] 10000 = Inr None"
    by simp
  with c out r e show ?thesis by simp
qed

text \<open>
  Claim C9 as stated fails: on the empty history the comparator does not fail, it
  returns a value, the empty dictionary.
\<close>

theorem C9_empty_history_counterexample:
  "compare_strategies [] 10000 = Inr None \<and> \<not> isl (compare_strategies [] 10000)"
  by (simp add: compare_strategies_def get_historical_data_def)

section \<open>Rounding keeps order and sign\<close>

lemma round_half_even_cases:
  "round_half_even y = \<lfloor>y\<rfloor> \<and> y - real_of_int \<lfloor>y\<rfloor> \<le> 1 / 2
   \<or> round_half_even y = \<lfloor>y\<rfloor> + 1 \<and> 1 / 2 \<le> y - real_of_int \<lfloor>y\<rfloor>"
  unfolding round_half_even_def Let_def by (simp add: not_less)

lemma round_half_even_near:
  "real_of_int (round_half_even y) - 1 / 2 \<le> y \<and> y \<le> real_of_int (round_half_even y) + 1 / 2"
proof -
  have "real_of_int \<lfloor>y\<rfloor> \<le> y" "y < real_of_int \<lfloor>y\<rfloor> + 1" by linarith+
  with round_half_even_cases [of y] show ?thesis
    by (elim disjE conjE) (simp only:, linarith)+
qed

lemma round_half_even_mono:
  assumes "x \<le> y"
  shows "round_half_even x \<le> round_half_even y"
proof (rule ccontr)
  assume "\<not> round_half_even x \<le> round_half_even y"
  then have "round_half_even y + 1 \<le> round_half_even x" by simp
  then have "real_of_int (round_half_even y) + 1 \<le> real_of_int (round_half_even x)"
    by linarith
  with round_half_even_near [of x] round_half_even_near [of y] assms
  have "x = y" by linarith
  with \<open>\<not> round_half_even x \<le> round_half_even y\<close> show False by simp
qed

lemma round_half_even_minus: "round_half_even (- y) = - round_half_even y"
proof (cases "y = real_of_int \<lfloor>y\<rfloor>")
  case True
  then have "\<lfloor>- y\<rfloor> = - \<lfloor>y\<rfloor>"
    by (metis floor_of_int of_int_minus)
  with True show ?thesis
    by (simp add: round_half_even_def Let_def)
next
  case False
  then have f: "\<lfloor>- y\<rfloor> = - \<lfloor>y\<rfloor> - 1"
    by (simp add: floor_minus ceiling_altdef)
  have "real_of_int \<lfloor>y\<rfloor> < y" "y < real_of_int \<lfloor>y\<rfloor> + 1"
    using False by linarith+
  then show ?thesis
    unfolding round_half_even_def Let_def f
    by (auto simp: algebra_simps)
qed


lemma py_round_mono: "x \<le> y \<Longrightarrow> py_round x n \<le> py_round y n"
proof -
  assume "x \<le> y"
  then have "x * 10 ^ n \<le> y * 10 ^ n" by simp
  from round_half_even_mono [OF this] show ?thesis
    by (simp add: py_round_def divide_right_mono)
qed

lemma py_round_minus: "py_round (- x) n = - py_round x n"
  by (simp add: py_round_def round_half_even_minus)

lemma py_round_abs: "py_round \<bar>x\<bar> n = \<bar>py_round x n\<bar>"
proof (cases "0 \<le> x")
  case True
  from py_round_mono [OF this, of n] have "0 \<le> py_round x n"
    by (simp add: py_round_zero)
  with True show ?thesis by simp
next
  case False
  then have "x \<le> 0" by simp
  from py_round_mono [OF this, of n] have "py_round x n \<le> 0"
    by (simp add: py_round_zero)
  with False show ?thesis by (simp add: py_round_minus)
qed

section \<open>The ranking of the opportunities\<close>

lemma insort_key_map:
  "insort_key k (g x) (map g ys) = map g (insort_key (\<lambda>x. k (g x)) x ys)"
  by (induction ys) simp_all

lemma sort_key_map: "sort_key k (map g xs) = map g (sort_key (\<lambda>x. k (g x)) xs)"
  by (induction xs) (simp_all add: insort_key_map)

lemma drops_at_or_below_rows:
  "map fst (drops_at_or_below t df) = filter (\<lambda>r. le_nan (nav_change r) (Some t)) df"
  by (induction df)
     (simp_all add: drops_at_or_below_def List.map_filter_simps le_nan_def
        split: option.splits)

lemma drops_at_or_below_changes:
  "(r, chg) \<in> set (drops_at_or_below t df) \<Longrightarrow> nav_change r = Some chg \<and> chg \<le> t"
  by (induction df)
     (auto simp: drops_at_or_below_def List.map_filter_simps
        split: option.splits if_splits)

lemma find_best_investment_dates_ranked:
  "find_best_investment_dates history t =
     map (\<lambda>(row, chg). opportunity_entry (row, chg, \<bar>chg\<bar>))
       (sort_key (\<lambda>(row, chg). - \<bar>chg\<bar>)
          (drops_at_or_below t (analyze_nav_trends history)))"
proof (cases "analyze_nav_trends history = []")
  case True
  then show ?thesis
    by (simp add: find_best_investment_dates_def drops_at_or_below_def
          List.map_filter_simps)
next
  case False
  have "sort_key (\<lambda>(row, chg, score). - score)
          (map (\<lambda>(row, chg). (row, chg, \<bar>chg\<bar>))
             (drops_at_or_below t (analyze_nav_trends history)))
      = map (\<lambda>(row, chg). (row, chg, \<bar>chg\<bar>))
          (sort_key (\<lambda>(row, chg). - \<bar>chg\<bar>)
             (drops_at_or_below t (analyze_nav_trends history)))"
    by (simp add: sort_key_map case_prod_unfold)
  with False show ?thesis
    by (simp add: find_best_investment_dates_def Let_def case_prod_unfold o_def)
qed


lemma analysed_near_tie:
  "analyze_nav_trends near_tie_history =
     [\<lparr>date = (2024, 1, 1), nav = 100000, nav_change = None, nav_ma_30 = None,
        nav_ma_7 = None, volatility = None,
        is_significant_drop = False, is_below_ma = False\<rparr>,
      \<lparr>date = (2024, 1, 2), nav = 97999, nav_change = Some (- (2001 / 1000)),
        nav_ma_30 = None, nav_ma_7 = None, volatility = None,
        is_significant_drop = True, is_below_ma = False\<rparr>,
      \<lparr>date = (2024, 1, 3), nav = 96035, nav_change = Some (- (196400 / 97999)),
        nav_ma_30 = None, nav_ma_7 = None, volatility = None,
        is_significant_drop = True, is_below_ma = False\<rparr>]"
  by (simp add: near_tie_history_def analyze_nav_trends_def pct_change_def rolling_def
        lt_nan_def Let_def)

lemma best_dates_of_near_tie:
  "map (\<lambda>opp. (opp_date opp, nav_change_percent opp, opportunity_score opp))
     (find_best_investment_dates near_tie_history (- 2))
   = [((2024, 1, 3), - 2, 2), ((2024, 1, 2), - 2, 2)]"
  by (simp add: find_best_investment_dates_ranked analysed_near_tie drops_at_or_below_def
        List.map_filter_simps opportunity_entry_def py_round_def round_half_even_def Let_def)


text \<open>
  Claim C8, as the program has it. The opportunities are the rows of the analysed
  series whose percent change is a number at or below the threshold, every such row
  once and no other: \<open>ranked\<close> is a rearrangement of them, each with its change, in
  falling order of the size \<open>\<bar>chg\<bar>\<close> of the change. The entry written for a row
  reports the change and its size rounded to two decimals, so the score of an entry is
  the absolute value of the change it reports, and the reported scores never rise
  along the list. How rows of equal size follow one another is not settled by the
  program.
\<close>

theorem C8_opportunities:
  "\<exists>ranked.
      mset (map fst ranked)
        = mset (filter (\<lambda>r. le_nan (nav_change r) (Some t)) (analyze_nav_trends history))
    \<and> (\<forall>(row, chg) \<in> set ranked. nav_change row = Some chg \<and> chg \<le> t)
    \<and> sorted_wrt (\<lambda>a b. \<bar>snd b\<bar> \<le> \<bar>snd a\<bar>) ranked
    \<and> map opp_date (find_best_investment_dates history t)
          = map (\<lambda>(row, chg). date row) ranked
    \<and> map nav_change_percent (find_best_investment_dates history t)
          = map (\<lambda>(row, chg). py_round chg 2) ranked
    \<and> map opportunity_score (find_best_investment_dates history t)
          = map (\<lambda>(row, chg). py_round \<bar>chg\<bar> 2) ranked
    \<and> (\<forall>opp \<in> set (find_best_investment_dates history t).
          opportunity_score opp = \<bar>nav_change_percent opp\<bar>)
    \<and> sorted_wrt (\<lambda>a b. opportunity_score b \<le> opportunity_score a)
          (find_best_investment_dates history t)"
proof -
  let ?df = "analyze_nav_trends history"
  let ?ranked = "sort_key (\<lambda>(row, chg). - \<bar>chg\<bar>) (drops_at_or_below t ?df)"
  let ?out = "find_best_investment_dates history t"
  have out: "?out = map (\<lambda>(row, chg). opportunity_entry (row, chg, \<bar>chg\<bar>)) ?ranked"
    by (rule find_best_investment_dates_ranked)
  have "mset (map fst ?ranked) = mset (map fst (drops_at_or_below t ?df))"
    by simp
  then have 1: "mset (map fst ?ranked)
      = mset (filter (\<lambda>r. le_nan (nav_change r) (Some t)) ?df)"
    by (simp only: drops_at_or_below_rows)
  have 2: "\<forall>(row, chg) \<in> set ?ranked. nav_change row = Some chg \<and> chg \<le> t"
    using drops_at_or_below_changes [of _ _ t ?df] by auto
  have "sorted (map (\<lambda>(row, chg). - \<bar>chg\<bar>) ?ranked)"
    by (rule sorted_sort_key)
  then have 3: "sorted_wrt (\<lambda>a b. \<bar>snd b\<bar> \<le> \<bar>snd a\<bar>) ?ranked"
    by (simp add: sorted_map case_prod_unfold)
  have 4: "map opp_date ?out = map (\<lambda>(row, chg). date row) ?ranked"
    by (simp add: out opportunity_entry_def case_prod_unfold o_def)
  have 5: "map nav_change_percent ?out = map (\<lambda>(row, chg). py_round chg 2) ?ranked"
    by (simp add: out opportunity_entry_def case_prod_unfold o_def)
  have 6: "map opportunity_score ?out = map (\<lambda>(row, chg). py_round \<bar>chg\<bar> 2) ?ranked"
    by (simp add: out opportunity_entry_def case_prod_unfold o_def)
  have 7: "\<forall>opp \<in> set ?out. opportunity_score opp = \<bar>nav_change_percent opp\<bar>"
    by (auto simp: out opportunity_entry_def py_round_abs)
  have 8: "sorted_wrt (\<lambda>a b. opportunity_score b \<le> opportunity_score a) ?out"
    unfolding out sorted_wrt_map
    by (rule sorted_wrt_mono_rel [OF _ 3])
       (simp add: opportunity_entry_def case_prod_unfold py_round_mono)
  from 1 2 3 4 5 6 7 8 show ?thesis by blast
qed


text \<open>On the series of the two nearly equal drops, threshold -2.\<close>

theorem C8_opportunities_witness:
  "length (find_best_investment_dates near_tie_history (- 2)) = 2
   \<and> map opportunity_score (find_best_investment_dates near_tie_history (- 2)) = [2, 2]
   \<and> map (\<lambda>opp. \<bar>nav_change_percent opp\<bar>)
         (find_best_investment_dates near_tie_history (- 2)) = [2, 2]
   \<and> sorted_wrt (\<lambda>a b. opportunity_score b \<le> opportunity_score a)
         (find_best_investment_dates near_tie_history (- 2))"
proof -
  let ?out = "find_best_investment_dates near_tie_history (- 2)"
  from C8_opportunities [of "- 2" near_tie_history] have
    score: "\<forall>opp \<in> set ?out. opportunity_score opp = \<bar>nav_change_percent opp\<bar>"
    and ord: "sorted_wrt (\<lambda>a b. opportunity_score b \<le> opportunity_score a) ?out"
    by blast+
  from best_dates_of_near_tie have "map opportunity_score ?out = [2, 2]"
    by (auto simp: map_eq_Cons_conv)
  moreover from this have "length ?out = 2"
    by (metis length_Cons length_map list.size(3) numeral_2_eq_2)
  moreover from score have "map (\<lambda>opp. \<bar>nav_change_percent opp\<bar>) ?out = map opportunity_score ?out"
    by simp
  ultimately show ?thesis using ord by simp
qed

text \<open>
  Claim C8 as stated fails. The drops of 2.001 and of about 2.0041 percent are both
  reported with the score 2.0, which is neither of the two sizes, and the later day
  comes first: two entries of equal score stand in falling order of their dates.
\<close>

theorem C8_near_tie_counterexample:
  "map nav_change (analyze_nav_trends near_tie_history)
     = [None, Some (- (2001 / 1000)), Some (- (196400 / 97999))]
   \<and> map (\<lambda>opp. (opp_date opp, nav_change_percent opp, opportunity_score opp))
         (find_best_investment_dates near_tie_history (- 2))
       = [((2024, 1, 3), - 2, 2), ((2024, 1, 2), - 2, 2)]
   \<and> \<not> spec_opportunity_order (find_best_investment_dates near_tie_history (- 2))"
proof -
  from best_dates_of_near_tie obtain a b where
    "find_best_investment_dates near_tie_history (- 2) = [a, b]"
    "opp_date a = (2024, 1, 3)" "opp_date b = (2024, 1, 2)"
    "opportunity_score a = 2" "opportunity_score b = 2"
    by (auto simp: map_eq_Cons_conv)
  then have "\<not> spec_opportunity_order (find_best_investment_dates near_tie_history (- 2))"
    by (simp add: spec_opportunity_order_def)
  with best_dates_of_near_tie show ?thesis
    by (simp add: analysed_near_tie)
qed

end
